theory Spec2Isabelle
  imports Complex_Main
begin

section \<open>Data model\<close>

text \<open>
  The program is the React component \<open>App\<close> of \<open>src/App.js\<close>.

  JavaScript numbers are IEEE doubles.  A number is modelled as the real it denotes; the
  coordinates and scores that the component receives from the detection library are
  finite numbers.  An arithmetic operation of the source (\<open>+\<close>, \<open>-\<close>, \<open>*\<close>) is the exact
  operation followed by the rounding of the number format, and that rounding is a
  parameter \<open>rnd\<close> of every function that computes; results are taken to stay finite.
  \<open>Math.max\<close>, \<open>Math.min\<close>, the comparisons and \<open>toFixed\<close> work on the exact values of
  their arguments.

  Modelled from the spec: the element type of the array returned by the detection library
  (\<open>face-api.js\<close>, not part of the repository).  Section 3 of the specification gives a
  detection a bounding box \<open>{x, y, width, height}\<close> and a confidence score; the component
  reads them as \<open>det._box\<close> and \<open>det._score\<close>.
\<close>

record box =
  box_x :: real
  box_y :: real
  box_width :: real
  box_height :: real

record detection =
  det_box :: box
  det_score :: real

text \<open>
  A canvas is its size, the drawing state of its 2D context (only the attributes the
  component sets) and what has been painted on it since it was last reset, oldest first.
  A painted operation carries the styles that were current when it was issued.
  \<open>'v\<close> is the type of video elements (a video element together with the picture it
  currently shows).
\<close>

datatype path_cmd = MoveTo real real | LineTo real real

datatype 'v draw_op =
    ClearRect real real real real
  | DrawVideo 'v real real real real
  | Stroke string real "path_cmd list"
  | FillText string string string real real
  | FillRect string real real real real
  | DrawCanvas real real "'v draw_op list" real real real real real real real real
  | DrawDetections "detection list"
  | DrawFaceLandmarks "detection list"

record 'v canvas =
  cv_width :: real
  cv_height :: real
  strokeStyle :: string
  lineWidth :: real
  fillStyle :: string
  font :: string
  path :: "path_cmd list"
  bitmap :: "'v draw_op list"

text \<open>The page outside the component: console, object URLs, the children of
  \<open>document.body\<close> and the downloads the browser has started.  A blob is the bytes of an
  encoded image.\<close>

type_synonym blob = "nat list"

datatype url = ObjectURL blob

datatype element = Anchor url string | OtherNode string

text \<open>A console entry is the call with its arguments.  Strings are bytes, so the
  characters outside ASCII are written in UTF-8.\<close>

datatype console_entry = Log string blob | Warn string

text \<open>The state of the component (lines 5--10), the interval timers it has started (each
  with the model name its callback closed over), and the page around it.\<close>

record 'v app =
  selectedModel :: "string option"
  captureVideo :: bool
  modelsLoaded :: bool
  detections :: "detection list"
  videoRef :: "'v option"
  canvasRef :: "'v canvas option"
  intervals :: "string list"
  encoding :: "'v canvas list"
  console :: "console_entry list"
  objectURLs :: "blob list"
  body :: "element list"
  downloads :: "(string \<times> url) list"

definition videoHeight :: real where
  "videoHeight = 480"

definition videoWidth :: real where
  "videoWidth = 640"

section \<open>The 2D context\<close>

text \<open>\<open>document.createElement("canvas")\<close>: a canvas of the default size with the default
  drawing state and nothing painted.\<close>

definition createCanvas :: "'v canvas" where
  "createCanvas = \<lparr>cv_width = 300, cv_height = 150, strokeStyle = ''#000000'',
     lineWidth = 1, fillStyle = ''#000000'', font = ''10px sans-serif'', path = [],
     bitmap = []\<rparr>"

text \<open>Assigning \<open>canvas.width\<close> or \<open>canvas.height\<close> resets the bitmap and the drawing
  state.\<close>

definition setWidth :: "real \<Rightarrow> 'v canvas \<Rightarrow> 'v canvas" where
  "setWidth w c = createCanvas\<lparr>cv_width := w, cv_height := cv_height c\<rparr>"

definition setHeight :: "real \<Rightarrow> 'v canvas \<Rightarrow> 'v canvas" where
  "setHeight h c = createCanvas\<lparr>cv_width := cv_width c, cv_height := h\<rparr>"

definition paint :: "'v draw_op \<Rightarrow> 'v canvas \<Rightarrow> 'v canvas" where
  "paint op c = c\<lparr>bitmap := bitmap c @ [op]\<rparr>"

definition clearRect :: "real \<Rightarrow> real \<Rightarrow> real \<Rightarrow> real \<Rightarrow> 'v canvas \<Rightarrow> 'v canvas" where
  "clearRect rx ry rw rh c = paint (ClearRect rx ry rw rh) c"

definition beginPath :: "'v canvas \<Rightarrow> 'v canvas" where
  "beginPath c = c\<lparr>path := []\<rparr>"

definition moveTo :: "real \<Rightarrow> real \<Rightarrow> 'v canvas \<Rightarrow> 'v canvas" where
  "moveTo px py c = c\<lparr>path := path c @ [MoveTo px py]\<rparr>"

definition lineTo :: "real \<Rightarrow> real \<Rightarrow> 'v canvas \<Rightarrow> 'v canvas" where
  "lineTo px py c = c\<lparr>path := path c @ [LineTo px py]\<rparr>"

definition stroke :: "'v canvas \<Rightarrow> 'v canvas" where
  "stroke c = paint (Stroke (strokeStyle c) (lineWidth c) (path c)) c"

definition fillText :: "string \<Rightarrow> real \<Rightarrow> real \<Rightarrow> 'v canvas \<Rightarrow> 'v canvas" where
  "fillText t px py c = paint (FillText (fillStyle c) (font c) t px py) c"

definition fillRect :: "real \<Rightarrow> real \<Rightarrow> real \<Rightarrow> real \<Rightarrow> 'v canvas \<Rightarrow> 'v canvas" where
  "fillRect rx ry rw rh c = paint (FillRect (fillStyle c) rx ry rw rh) c"

text \<open>\<open>ctx.drawImage(video, dx, dy, dw, dh)\<close>.\<close>

definition drawImage5 :: "'v \<Rightarrow> real \<Rightarrow> real \<Rightarrow> real \<Rightarrow> real \<Rightarrow> 'v canvas \<Rightarrow> 'v canvas" where
  "drawImage5 video dx dy dw dh c = paint (DrawVideo video dx dy dw dh) c"

text \<open>\<open>ctx.drawImage(canvas, sx, sy, sw, sh, dx, dy, dw, dh)\<close>: the source canvas is read
  as it is at the moment of the call.\<close>

definition drawImage9 ::
  "'v canvas \<Rightarrow> real \<Rightarrow> real \<Rightarrow> real \<Rightarrow> real \<Rightarrow> real \<Rightarrow> real \<Rightarrow> real \<Rightarrow> real \<Rightarrow>
     'v canvas \<Rightarrow> 'v canvas" where
  "drawImage9 src sx sy sw sh dx dy dw dh c =
     paint (DrawCanvas (cv_width src) (cv_height src) (bitmap src) sx sy sw sh dx dy dw dh) c"

section \<open>The accuracy label\<close>

text \<open>\<open>Number.prototype.toFixed(2)\<close> for a number of magnitude below \<open>10^21\<close>: the sign,
  then the multiple of \<open>1/100\<close> nearest to the exact value of the number (the larger one
  on a tie), written with at least one digit before the point and two after it.\<close>

definition digit :: "nat \<Rightarrow> char" where
  "digit n = char_of (48 + n)"

fun digits :: "nat \<Rightarrow> string" where
  "digits n = (if n < 10 then [digit n] else digits (n div 10) @ [digit (n mod 10)])"

declare digits.simps [simp del]

definition toFixed2 :: "real \<Rightarrow> string" where
  "toFixed2 v =
     (let n = nat \<lfloor>\<bar>v\<bar> * 100 + 1 / 2\<rfloor>;
          m = (if n < 10 then ''00'' else if n < 100 then ''0'' else '''') @ digits n;
          k = length m
      in (if v < 0 then ''-'' else '''') @ take (k - 2) m @ ''.'' @ drop (k - 2) m)"

text \<open>The body of the \<open>forEach\<close> callback of lines 95--107, repeated verbatim at lines
  128--140: a red line ten pixels above the top edge of the box and the label above it.\<close>

definition drawAccuracy :: "(real \<Rightarrow> real) \<Rightarrow> detection \<Rightarrow> 'v canvas \<Rightarrow> 'v canvas" where
  "drawAccuracy rnd det ctx =
     (let x = box_x (det_box det); y = box_y (det_box det);
          width = box_width (det_box det);
          ctx = ctx\<lparr>strokeStyle := ''red''\<rparr>;
          ctx = ctx\<lparr>lineWidth := 2\<rparr>;
          ctx = beginPath ctx;
          ctx = moveTo x (rnd (y - 10)) ctx;
          ctx = lineTo (rnd (x + width)) (rnd (y - 10)) ctx;
          ctx = stroke ctx;
          ctx = ctx\<lparr>fillStyle := ''red''\<rparr>;
          ctx = ctx\<lparr>font := ''16px Arial''\<rparr>
      in fillText (''Accuracy: '' @ toFixed2 (rnd (det_score det * 100)) @ ''%'')
           x (rnd (y - 15)) ctx)"

section \<open>Capture\<close>

text \<open>
  \<open>captureImage\<close>, lines 113--181, up to and including the call of \<open>toBlob\<close>.  The
  encoding is asynchronous: the call queues the passport canvas in \<open>encoding\<close>, and the
  callback runs later (\<open>toBlobDone\<close> below).
\<close>

definition captureImage :: "(real \<Rightarrow> real) \<Rightarrow> 'v app \<Rightarrow> 'v app" where
  "captureImage rnd st =
     (case videoRef st of None \<Rightarrow> st | Some video \<Rightarrow>
     (case canvasRef st of None \<Rightarrow> st | Some canvas \<Rightarrow>
       (if length (detections st) > 0 then
          (let face = det_box (detections st ! 0);
               padding = 40;
               ctx = drawImage5 video 0 0 videoWidth videoHeight canvas;
               ctx = fold (drawAccuracy rnd) (detections st) ctx;
               faceX = max (rnd (box_x face - padding)) 0;
               faceY = max (rnd (box_y face - padding)) 0;
               faceWidth = min (rnd (box_width face + rnd (padding * 2))) videoWidth;
               faceHeight = min (rnd (box_height face + rnd (padding * 2))) videoHeight;
               passportWidth = 400;
               passportHeight = 500;
               passportCanvas = createCanvas;
               passportCanvas = setWidth passportWidth passportCanvas;
               passportCanvas = setHeight passportHeight passportCanvas;
               passportCtx = passportCanvas\<lparr>fillStyle := ''white''\<rparr>;
               passportCtx = fillRect 0 0 passportWidth passportHeight passportCtx;
               passportCtx = drawImage9 ctx faceX faceY faceWidth faceHeight
                               0 0 passportWidth passportHeight passportCtx
           in st\<lparr>canvasRef := Some ctx, encoding := encoding st @ [passportCtx]\<rparr>)
        else st)))"

text \<open>The callback given to \<open>toBlob\<close>, lines 168--178.  The anchor is the node appended
  last, so removing it removes the last child equal to it.\<close>

definition removeChild :: "element \<Rightarrow> element list \<Rightarrow> element list" where
  "removeChild a xs = rev (remove1 a (rev xs))"

definition onBlob :: "blob option \<Rightarrow> 'v app \<Rightarrow> 'v app" where
  "onBlob result st =
     (case result of
        None \<Rightarrow> st
      | Some blob \<Rightarrow>
          (let st = st\<lparr>console := console st @
                      [Log (CHR 0xE2 # CHR 0x9C # CHR 0x85 # '' Passport-size Image Captured:'')
                         blob]\<rparr>;
               url = ObjectURL blob;
               st = st\<lparr>objectURLs := objectURLs st @ [blob]\<rparr>;
               a = Anchor url ''passport_photo.png'';
               st = st\<lparr>body := body st @ [a]\<rparr>;
               st = st\<lparr>downloads := downloads st @ [(''passport_photo.png'', url)]\<rparr>
           in st\<lparr>body := removeChild a (body st)\<rparr>))"

text \<open>The browser finishes the oldest queued encoding with \<open>result\<close> (\<open>None\<close> is the
  \<open>null\<close> passed when there is no image data) and calls the callback.\<close>

definition toBlobDone :: "blob option \<Rightarrow> 'v app \<Rightarrow> 'v app" where
  "toBlobDone result st =
     (case encoding st of
        [] \<Rightarrow> st
      | job # rest \<Rightarrow> onBlob result (st\<lparr>encoding := rest\<rparr>))"

section \<open>The annotation loop\<close>

text \<open>The detection library is a parameter: the detector, the landmark stage, the
  rescaling of results to a display size and the resizing of a canvas to it.\<close>

datatype detector_options = SsdMobilenetv1Options | TinyFaceDetectorOptions

record 'v faceapi =
  detectAllFaces :: "'v \<Rightarrow> detector_options \<Rightarrow> detection list"
  withFaceLandmarks :: "detection list \<Rightarrow> detection list"
  resizeResults :: "detection list \<Rightarrow> real \<times> real \<Rightarrow> detection list"
  matchDimensions :: "'v canvas \<Rightarrow> real \<times> real \<Rightarrow> 'v canvas"

text \<open>\<open>!selectedModel\<close>: \<open>null\<close> and the empty string are falsy.\<close>

definition falsy :: "string option \<Rightarrow> bool" where
  "falsy s = (s = None \<or> s = Some [])"

text \<open>\<open>handleVideoOnPlay\<close>, lines 59--111: the guard, then \<open>setInterval\<close>.\<close>

definition handleVideoOnPlay :: "'v app \<Rightarrow> 'v app" where
  "handleVideoOnPlay st =
     (if \<not> modelsLoaded st \<or> falsy (selectedModel st)
      then st\<lparr>console := console st @
             [Warn (CHR 0xE2 # CHR 0x9A # CHR 0xA0 # CHR 0xEF # CHR 0xB8 # CHR 0x8F #
                    '' Cannot start detection. Model is not loaded yet.'')]\<rparr>
      else st\<lparr>intervals := intervals st @ [the (selectedModel st)]\<rparr>)"

text \<open>Lines 75--83: the detector call chosen by the model name.\<close>

definition detectFaces :: "'v faceapi \<Rightarrow> string \<Rightarrow> 'v \<Rightarrow> detection list" where
  "detectFaces api sel video =
     (if sel = ''ssd'' then detectAllFaces api video SsdMobilenetv1Options
      else if sel = ''tiny'' then detectAllFaces api video TinyFaceDetectorOptions
      else if sel = ''landmark''
        then withFaceLandmarks api (detectAllFaces api video SsdMobilenetv1Options)
      else [])"

text \<open>One run of the interval callback, lines 65--110, for a timer whose callback closed
  over the model name \<open>sel\<close>.  The run is taken as one step: the detector's answer is
  awaited and nothing else happens in between.\<close>

definition tick :: "(real \<Rightarrow> real) \<Rightarrow> 'v faceapi \<Rightarrow> string \<Rightarrow> 'v app \<Rightarrow> 'v app" where
  "tick rnd api sel st =
     (case videoRef st of None \<Rightarrow> st | Some video \<Rightarrow>
     (case canvasRef st of None \<Rightarrow> st | Some canvas \<Rightarrow>
       (let ctx = clearRect 0 0 videoWidth videoHeight canvas;
            displaySize = (videoWidth, videoHeight);
            ctx = matchDimensions api ctx displaySize;
            detectedFaces = detectFaces api sel video
        in if length detectedFaces > 0 then
             (let resizedDetections = resizeResults api detectedFaces displaySize;
                  st = st\<lparr>detections := resizedDetections\<rparr>;
                  ctx = paint (DrawDetections resizedDetections) ctx;
                  ctx = (if sel = ''landmark''
                         then paint (DrawFaceLandmarks resizedDetections) ctx else ctx);
                  ctx = fold (drawAccuracy rnd) resizedDetections ctx
              in st\<lparr>canvasRef := Some ctx\<rparr>)
           else st\<lparr>canvasRef := Some ctx\<rparr>)))"

section \<open>The capture button\<close>

text \<open>Lines 231--235: the button is rendered when
  \<open>detections.some((det) => det?._score > 0.7)\<close>.\<close>

definition captureButtonShown :: "'v app \<Rightarrow> bool" where
  "captureButtonShown st = list_ex (\<lambda>det. det_score det > 0.7) (detections st)"

section \<open>Observations\<close>

text \<open>The state of a freshly mounted component (the \<open>useState\<close> and \<open>useRef\<close> defaults)
  on an empty page, and the overlay canvas as the JSX of line 225 creates it.\<close>

definition initialApp :: "'v app" where
  "initialApp = \<lparr>selectedModel = None, captureVideo = False, modelsLoaded = False,
     detections = [], videoRef = None, canvasRef = None, intervals = [], encoding = [],
     console = [], objectURLs = [], body = [], downloads = []\<rparr>"

definition overlayCanvas :: "'v canvas" where
  "overlayCanvas = setHeight videoHeight (setWidth videoWidth createCanvas)"

text \<open>The passport canvases that one call of \<open>captureImage\<close> hands to the encoder, and the
  source rectangle of the crop drawn on the first of them.\<close>

definition captured :: "(real \<Rightarrow> real) \<Rightarrow> 'v app \<Rightarrow> 'v canvas list" where
  "captured rnd st = drop (length (encoding st)) (encoding (captureImage rnd st))"

fun sourceRect :: "'v draw_op \<Rightarrow> box option" where
  "sourceRect (DrawCanvas w h src sx sy sw sh dx dy dw dh) =
     Some \<lparr>box_x = sx, box_y = sy, box_width = sw, box_height = sh\<rparr>"
| "sourceRect _ = None"

definition capturedCrop :: "(real \<Rightarrow> real) \<Rightarrow> 'v app \<Rightarrow> box option" where
  "capturedCrop rnd st =
     (case captured rnd st of [] \<Rightarrow> None
      | out # _ \<Rightarrow> (case bitmap out of [] \<Rightarrow> None | op # ops \<Rightarrow> sourceRect (last (op # ops))))"

text \<open>What \<open>drawAccuracy\<close> paints for one detection.\<close>

definition accuracyOps :: "(real \<Rightarrow> real) \<Rightarrow> detection \<Rightarrow> 'v draw_op list" where
  "accuracyOps rnd det =
     [Stroke ''red'' 2
        [MoveTo (box_x (det_box det)) (rnd (box_y (det_box det) - 10)),
         LineTo (rnd (box_x (det_box det) + box_width (det_box det)))
                (rnd (box_y (det_box det) - 10))],
      FillText ''red'' ''16px Arial''
        (''Accuracy: '' @ toFixed2 (rnd (det_score det * 100)) @ ''%'')
        (box_x (det_box det)) (rnd (box_y (det_box det) - 15))]"

text \<open>A rounding for the instances: the multiple of \<open>2^-k\<close> nearest to the exact value,
  the even one on a tie.  The double format rounds like this with \<open>k = 45\<close> where the
  result has magnitude from 128 up to 256, and with \<open>k = 46\<close> from 64 up to 128.\<close>

definition nearestEven :: "real \<Rightarrow> int" where
  "nearestEven s =
     (let f = \<lfloor>s\<rfloor>
      in if s - of_int f < 1 / 2 then f
         else if s - of_int f > 1 / 2 then f + 1
         else if even f then f else f + 1)"

definition roundTo :: "nat \<Rightarrow> real \<Rightarrow> real" where
  "roundTo k v = of_int (nearestEven (v * 2 ^ k)) / 2 ^ k"

text \<open>
  Pixels.  How the browser turns painted operations into pixels is a parameter: \<open>'p\<close> is
  the type of pixel arrays, \<open>blank w h\<close> the transparent array of a fresh canvas,
  \<open>rasterize\<close> the effect of one operation on an array and \<open>rasterizeImage\<close> that of
  drawing a rectangle of another array.
\<close>

record ('v, 'p) raster =
  blank :: "real \<Rightarrow> real \<Rightarrow> 'p"
  rasterize :: "'v draw_op \<Rightarrow> 'p \<Rightarrow> 'p"
  rasterizeImage ::
    "'p \<Rightarrow> real \<Rightarrow> real \<Rightarrow> real \<Rightarrow> real \<Rightarrow> real \<Rightarrow> real \<Rightarrow> real \<Rightarrow> real \<Rightarrow> 'p \<Rightarrow> 'p"

fun pixelsAfter :: "('v, 'p) raster \<Rightarrow> 'v draw_op list \<Rightarrow> 'p \<Rightarrow> 'p"
  and pixelsOp :: "('v, 'p) raster \<Rightarrow> 'v draw_op \<Rightarrow> 'p \<Rightarrow> 'p" where
  "pixelsAfter R [] p = p"
| "pixelsAfter R (op # ops) p = pixelsAfter R ops (pixelsOp R op p)"
| "pixelsOp R (DrawCanvas w h src sx sy sw sh dx dy dw dh) p =
     rasterizeImage R (pixelsAfter R src (blank R w h)) sx sy sw sh dx dy dw dh p"
| "pixelsOp R (ClearRect rx ry rw rh) p = rasterize R (ClearRect rx ry rw rh) p"
| "pixelsOp R (DrawVideo v dx dy dw dh) p = rasterize R (DrawVideo v dx dy dw dh) p"
| "pixelsOp R (Stroke s lw pth) p = rasterize R (Stroke s lw pth) p"
| "pixelsOp R (FillText s f t px py) p = rasterize R (FillText s f t px py) p"
| "pixelsOp R (FillRect s rx ry rw rh) p = rasterize R (FillRect s rx ry rw rh) p"
| "pixelsOp R (DrawDetections ds) p = rasterize R (DrawDetections ds) p"
| "pixelsOp R (DrawFaceLandmarks ds) p = rasterize R (DrawFaceLandmarks ds) p"

definition pixels :: "('v, 'p) raster \<Rightarrow> 'v canvas \<Rightarrow> 'p" where
  "pixels R c = pixelsAfter R (bitmap c) (blank R (cv_width c) (cv_height c))"

text \<open>The picture of \<open>video\<close>, drawn over the whole of a \<open>w\<close> by \<open>h\<close> canvas, hides
  whatever the canvas showed before: the picture is opaque and fills the rectangle.\<close>

definition hidesAll :: "('v, 'p) raster \<Rightarrow> 'v \<Rightarrow> real \<Rightarrow> real \<Rightarrow> bool" where
  "hidesAll R video w h =
     (\<forall>ops ops'.
        pixelsOp R (DrawVideo video 0 0 w h) (pixelsAfter R ops (blank R w h)) =
        pixelsOp R (DrawVideo video 0 0 w h) (pixelsAfter R ops' (blank R w h)))"

text \<open>A raster that keeps, as its pixel array, the operations still visible: a video
  picture replaces all of them, any other operation is added on top.\<close>

definition layers :: "('v, 'v draw_op list) raster" where
  "layers = \<lparr>blank = (\<lambda>w h. []),
     rasterize = (\<lambda>op p. case op of DrawVideo v dx dy dw dh \<Rightarrow> [op] | _ \<Rightarrow> p @ [op]),
     rasterizeImage = (\<lambda>src sx sy sw sh dx dy dw dh p.
        p @ [DrawCanvas 0 0 src sx sy sw sh dx dy dw dh])\<rparr>"

section \<open>Properties\<close>

subsection \<open>What a capture computes\<close>

lemma drawAccuracy_eq:
  "drawAccuracy rnd det c =
     c\<lparr>strokeStyle := ''red'', lineWidth := 2,
       fillStyle := ''red'', font := ''16px Arial'',
       path := [MoveTo (box_x (det_box det)) (rnd (box_y (det_box det) - 10)),
                LineTo (rnd (box_x (det_box det) + box_width (det_box det)))
                       (rnd (box_y (det_box det) - 10))],
       bitmap := bitmap c @ accuracyOps rnd det\<rparr>"
  by (simp add: drawAccuracy_def Let_def beginPath_def moveTo_def lineTo_def stroke_def
      fillText_def paint_def accuracyOps_def)

lemma fold_drawAccuracy_bitmap:
  "bitmap (fold (drawAccuracy rnd) ds c) = bitmap c @ concat (map (accuracyOps rnd) ds)"
  by (induction ds arbitrary: c) (simp_all add: drawAccuracy_eq)

lemma fold_drawAccuracy_size:
  "cv_width (fold (drawAccuracy rnd) ds c) = cv_width c \<and>
   cv_height (fold (drawAccuracy rnd) ds c) = cv_height c"
  by (induction ds arbitrary: c) (simp_all add: drawAccuracy_eq)

lemma captureImage_run:
  assumes "videoRef st = Some video" and "canvasRef st = Some canvas"
    and "detections st = det # rest"
  shows "captureImage rnd st =
           st\<lparr>canvasRef := Some (fold (drawAccuracy rnd) (det # rest)
                                   (drawImage5 video 0 0 640 480 canvas)),
              encoding := encoding st @
                [\<lparr>cv_width = 400, cv_height = 500, strokeStyle = ''#000000'', lineWidth = 1,
                  fillStyle = ''white'', font = ''10px sans-serif'', path = [],
                  bitmap = [FillRect ''white'' 0 0 400 500,
                    DrawCanvas (cv_width canvas) (cv_height canvas)
                      (bitmap canvas @ DrawVideo video 0 0 640 480 #
                         concat (map (accuracyOps rnd) (det # rest)))
                      (max (rnd (box_x (det_box det) - 40)) 0)
                      (max (rnd (box_y (det_box det) - 40)) 0)
                      (min (rnd (box_width (det_box det) + rnd 80)) 640)
                      (min (rnd (box_height (det_box det) + rnd 80)) 480)
                      0 0 400 500]\<rparr>]\<rparr>"
proof -
  let ?ctx = "fold (drawAccuracy rnd) (det # rest) (drawImage5 video 0 0 640 480 canvas)"
  have b: "bitmap ?ctx = bitmap canvas @ DrawVideo video 0 0 640 480 #
             concat (map (accuracyOps rnd) (det # rest))"
    unfolding fold_drawAccuracy_bitmap by (simp add: drawImage5_def paint_def)
  have w: "cv_width ?ctx = cv_width canvas" "cv_height ?ctx = cv_height canvas"
    unfolding fold_drawAccuracy_size [THEN conjunct1] fold_drawAccuracy_size [THEN conjunct2]
    by (simp_all add: drawImage5_def paint_def)
  have "captureImage rnd st =
     st\<lparr>canvasRef := Some ?ctx,
        encoding := encoding st @
          [\<lparr>cv_width = 400, cv_height = 500, strokeStyle = ''#000000'', lineWidth = 1,
            fillStyle = ''white'', font = ''10px sans-serif'', path = [],
            bitmap = [FillRect ''white'' 0 0 400 500,
              DrawCanvas (cv_width ?ctx) (cv_height ?ctx) (bitmap ?ctx)
                (max (rnd (box_x (det_box det) - 40)) 0)
                (max (rnd (box_y (det_box det) - 40)) 0)
                (min (rnd (box_width (det_box det) + rnd 80)) 640)
                (min (rnd (box_height (det_box det) + rnd 80)) 480)
                0 0 400 500]\<rparr>]\<rparr>"
    using assms
    by (simp add: captureImage_def Let_def createCanvas_def setWidth_def
        setHeight_def fillRect_def drawImage9_def paint_def videoWidth_def videoHeight_def)
  then show ?thesis unfolding b w .
qed

lemma captured_run:
  assumes "videoRef st = Some video" and "canvasRef st = Some canvas"
    and "detections st = det # rest"
  shows "captured rnd st =
           [\<lparr>cv_width = 400, cv_height = 500, strokeStyle = ''#000000'', lineWidth = 1,
             fillStyle = ''white'', font = ''10px sans-serif'', path = [],
             bitmap = [FillRect ''white'' 0 0 400 500,
               DrawCanvas (cv_width canvas) (cv_height canvas)
                 (bitmap canvas @ DrawVideo video 0 0 640 480 #
                    concat (map (accuracyOps rnd) (det # rest)))
                 (max (rnd (box_x (det_box det) - 40)) 0)
                 (max (rnd (box_y (det_box det) - 40)) 0)
                 (min (rnd (box_width (det_box det) + rnd 80)) 640)
                 (min (rnd (box_height (det_box det) + rnd 80)) 480)
                 0 0 400 500]\<rparr>]"
  unfolding captured_def captureImage_run [OF assms] by simp

lemma capturedCrop_run:
  assumes "videoRef st = Some video" and "canvasRef st = Some canvas"
    and "detections st = det # rest"
  shows "capturedCrop rnd st =
           Some \<lparr>box_x = max (rnd (box_x (det_box det) - 40)) 0,
                 box_y = max (rnd (box_y (det_box det) - 40)) 0,
                 box_width = min (rnd (box_width (det_box det) + rnd 80)) 640,
                 box_height = min (rnd (box_height (det_box det) + rnd 80)) 480\<rparr>"
  unfolding capturedCrop_def captured_run [OF assms] by simp

lemma captureImage_skip:
  "videoRef st = None \<or> canvasRef st = None \<or> detections st = [] \<Longrightarrow>
     captureImage rnd st = st"
  by (auto simp: captureImage_def split: option.splits)

lemma pixelsAfter_append:
  "pixelsAfter R (xs @ ys) p = pixelsAfter R ys (pixelsAfter R xs p)"
  by (induction xs arbitrary: p) simp_all

lemma hidesAll_layers: "hidesAll layers video w h"
  by (simp add: hidesAll_def layers_def)

text \<open>The ten digits are the characters from \<open>0\<close> to \<open>9\<close>.\<close>

lemma digit_chars:
  "digit 0 = CHR ''0''" "digit 1 = CHR ''1''" "digit 2 = CHR ''2''" "digit 3 = CHR ''3''"
  "digit 4 = CHR ''4''" "digit 5 = CHR ''5''" "digit 6 = CHR ''6''" "digit 7 = CHR ''7''"
  "digit 8 = CHR ''8''" "digit 9 = CHR ''9''"
  by code_simp+

subsection \<open>The claims\<close>

text \<open>
  Claim C1: for every bounding box and padding 40 the crop rectangle lies inside the
  frame, that is \<open>0 \<le> cropX\<close>, \<open>0 \<le> cropY\<close>, \<open>cropX + cropWidth \<le> 640\<close> and
  \<open>cropY + cropHeight \<le> 480\<close>.

  The code bounds the origin from below and the extent by the size of the whole frame,
  not by what is left of the frame beyond the origin.  For the box
  \<open>{x: 520, y: 380, width: 100, height: 100}\<close>, which lies inside the 640 by 480 frame,
  the crop is \<open>{480, 340, 180, 180}\<close>: it ends at 660 horizontally and at 520
  vertically.  The numbers that occur are integers, which the number format holds
  exactly.
\<close>

theorem crop_overruns_frame_near_far_edges:
  assumes "rnd 80 = 80" and "rnd 180 = 180" and "rnd 340 = 340" and "rnd 480 = 480"
  shows "capturedCrop rnd
     (initialApp\<lparr>videoRef := Some (0::nat), canvasRef := Some overlayCanvas,
      detections := [\<lparr>det_box = \<lparr>box_x = 520, box_y = 380, box_width = 100,
                                  box_height = 100\<rparr>, det_score = 0.93\<rparr>]\<rparr>)
     = Some \<lparr>box_x = 480, box_y = 340, box_width = 180, box_height = 180\<rparr>
   \<and> (480::real) + 180 > videoWidth \<and> (340::real) + 180 > videoHeight"
  using assms
  by (simp add: capturedCrop_run [where video = 0 and canvas = overlayCanvas]
      initialApp_def videoWidth_def videoHeight_def)

theorem crop_overruns_frame_near_far_edges_witness:
  "capturedCrop (roundTo 45)
     (initialApp\<lparr>videoRef := Some (0::nat), canvasRef := Some overlayCanvas,
      detections := [\<lparr>det_box = \<lparr>box_x = 520, box_y = 380, box_width = 100,
                                  box_height = 100\<rparr>, det_score = 0.93\<rparr>]\<rparr>)
     = Some \<lparr>box_x = 480, box_y = 340, box_width = 180, box_height = 180\<rparr>
   \<and> (480::real) + 180 > videoWidth \<and> (340::real) + 180 > videoHeight"
proof -
  have "roundTo 45 80 = 80" "roundTo 45 180 = 180" "roundTo 45 340 = 340"
    "roundTo 45 480 = 480"
    by (simp_all add: roundTo_def nearestEven_def)
  then show ?thesis
    by (rule crop_overruns_frame_near_far_edges)
qed

text \<open>
  Claim C2: the crop rectangle drawn onto the passport canvas is
  \<open>cropX = max (x - 40) 0\<close>, \<open>cropY = max (y - 40) 0\<close>,
  \<open>cropWidth = min (width + 80) 640\<close>, \<open>cropHeight = min (height + 80) 480\<close>, where
  \<open>{x, y, width, height}\<close> is the box of the first stored detection and the subtractions
  and additions are those of the number format (the exact result, rounded); the doubled
  padding is 80 because 80 is a number of the format.  For the box \<open>{10, 10, 50, 50}\<close>
  the rectangle is \<open>{0, 0, 130, 130}\<close>, the numbers -30 and 130 being numbers of the
  format too.

  The instance has both: the box of the example, and a box whose width is the double
  nearest to 57.3, where the sum with 80 is rounded.
\<close>

theorem crop_rectangle_formula:
  assumes "videoRef st = Some video" and "canvasRef st = Some canvas"
    and "detections st = det # rest"
    and "rnd 80 = 80"
  shows "capturedCrop rnd st =
           Some \<lparr>box_x = max (rnd (box_x (det_box det) - 40)) 0,
                 box_y = max (rnd (box_y (det_box det) - 40)) 0,
                 box_width = min (rnd (box_width (det_box det) + 80)) 640,
                 box_height = min (rnd (box_height (det_box det) + 80)) 480\<rparr>
         \<and> (det_box det = \<lparr>box_x = 10, box_y = 10, box_width = 50, box_height = 50\<rparr> \<and>
            rnd (- 30) = - 30 \<and> rnd 130 = 130 \<longrightarrow>
            capturedCrop rnd st =
              Some \<lparr>box_x = 0, box_y = 0, box_width = 130, box_height = 130\<rparr>)"
  unfolding capturedCrop_run [OF assms(1,2,3)] assms(4)
  by simp

theorem crop_rectangle_formula_witness:
  "capturedCrop (roundTo 45)
     (initialApp\<lparr>videoRef := Some (0::nat), canvasRef := Some overlayCanvas,
      detections := [\<lparr>det_box = \<lparr>box_x = 10, box_y = 10, box_width = 50,
                                  box_height = 50\<rparr>, det_score = 0.93\<rparr>]\<rparr>)
     = Some \<lparr>box_x = 0, box_y = 0, box_width = 130, box_height = 130\<rparr>
   \<and> capturedCrop (roundTo 45)
     (initialApp\<lparr>videoRef := Some (0::nat), canvasRef := Some overlayCanvas,
      detections := [\<lparr>det_box = \<lparr>box_x = 300, box_y = 200,
                                  box_width = 4032129041380147 / 70368744177664,
                                  box_height = 120\<rparr>, det_score = 0.93\<rparr>]\<rparr>)
     = Some \<lparr>box_x = 260, box_y = 160,
             box_width = 2415407143898317 / 17592186044416, box_height = 200\<rparr>"
proof -
  let ?d1 = "\<lparr>det_box = \<lparr>box_x = 10, box_y = 10, box_width = 50,
                                  box_height = 50\<rparr>, det_score = 0.93\<rparr>"
  let ?st1 = "initialApp\<lparr>videoRef := Some (0::nat), canvasRef := Some overlayCanvas,
      detections := [?d1]\<rparr>"
  let ?d2 = "\<lparr>det_box = \<lparr>box_x = 300, box_y = 200,
                                  box_width = 4032129041380147 / 70368744177664,
                                  box_height = 120\<rparr>, det_score = 0.93\<rparr>"
  let ?st2 = "initialApp\<lparr>videoRef := Some (0::nat), canvasRef := Some overlayCanvas,
      detections := [?d2]\<rparr>"
  have r: "roundTo 45 80 = 80"
    by (simp add: roundTo_def nearestEven_def)
  have ex: "det_box ?d1 = \<lparr>box_x = 10, box_y = 10, box_width = 50, box_height = 50\<rparr> \<and>
            roundTo 45 (- 30) = - 30 \<and> roundTo 45 130 = 130"
    by (simp add: roundTo_def nearestEven_def)
  have a: "capturedCrop (roundTo 45) ?st1 =
             Some \<lparr>box_x = 0, box_y = 0, box_width = 130, box_height = 130\<rparr>"
    by (rule crop_rectangle_formula [of ?st1 0 overlayCanvas ?d1 "[]" "roundTo 45",
          THEN conjunct2, THEN mp, OF _ _ _ r ex]) (simp_all add: initialApp_def)
  have b: "capturedCrop (roundTo 45) ?st2 =
             Some \<lparr>box_x = max (roundTo 45 (box_x (det_box ?d2) - 40)) 0,
                 box_y = max (roundTo 45 (box_y (det_box ?d2) - 40)) 0,
                 box_width = min (roundTo 45 (box_width (det_box ?d2) + 80)) 640,
                 box_height = min (roundTo 45 (box_height (det_box ?d2) + 80)) 480\<rparr>"
    by (rule crop_rectangle_formula [of ?st2 0 overlayCanvas ?d2 "[]" "roundTo 45",
          THEN conjunct1, OF _ _ _ r]) (simp_all add: initialApp_def)
  show ?thesis
    unfolding a b by (simp add: roundTo_def nearestEven_def)
qed

text \<open>
  Claim C3: with more than one stored detection the crop is derived from element 0 of
  the sequence, whatever the scores, and the sequence is not re-sorted: the crop is the
  padded box of element 0 (computed with the arithmetic of the number format), it is
  the crop that the one-element sequence holding only element 0 would give, the stored
  sequence is the same after the capture, and the accuracy marks are painted in the
  stored order.  In the instance the second detection has the higher score and the crop
  still comes from the first; the first score is the double nearest to 0.70035, whose
  product with 100 rounds below 70.035, so that its label reads 70.03.
\<close>

theorem crop_taken_from_first_detection:
  assumes "videoRef st = Some video" and "canvasRef st = Some canvas"
    and "length (detections st) > 1"
  shows "capturedCrop rnd st =
           Some \<lparr>box_x = max (rnd (box_x (det_box (detections st ! 0)) - 40)) 0,
                 box_y = max (rnd (box_y (det_box (detections st ! 0)) - 40)) 0,
                 box_width =
                   min (rnd (box_width (det_box (detections st ! 0)) + rnd (40 * 2))) 640,
                 box_height =
                   min (rnd (box_height (det_box (detections st ! 0)) + rnd (40 * 2))) 480\<rparr>
         \<and> capturedCrop rnd st = capturedCrop rnd (st\<lparr>detections := [detections st ! 0]\<rparr>)
         \<and> detections (captureImage rnd st) = detections st
         \<and> map_option bitmap (canvasRef (captureImage rnd st)) =
             Some (bitmap canvas @ DrawVideo video 0 0 640 480 #
                     concat (map (accuracyOps rnd) (detections st)))"
proof -
  from assms(3) obtain det rest where d: "detections st = det # rest"
    by (cases "detections st") auto
  have one: "detections (st\<lparr>detections := [detections st ! 0]\<rparr>) = det # []"
    using d by simp
  have refs: "videoRef (st\<lparr>detections := [detections st ! 0]\<rparr>) = Some video"
    "canvasRef (st\<lparr>detections := [detections st ! 0]\<rparr>) = Some canvas"
    using assms by simp_all
  show ?thesis
    unfolding capturedCrop_run [OF assms(1,2) d] capturedCrop_run [OF refs one]
      captureImage_run [OF assms(1,2) d]
    by (simp add: d fold_drawAccuracy_bitmap drawAccuracy_eq drawImage5_def paint_def)
qed

theorem crop_taken_from_first_detection_witness:
  "capturedCrop (roundTo 46)
     (initialApp\<lparr>videoRef := Some (0::nat), canvasRef := Some overlayCanvas,
      detections :=
        [\<lparr>det_box = \<lparr>box_x = 300, box_y = 200, box_width = 100, box_height = 120\<rparr>,
          det_score = 3154095999028927 / 4503599627370496\<rparr>,
         \<lparr>det_box = \<lparr>box_x = 10, box_y = 10, box_width = 50, box_height = 50\<rparr>,
          det_score = 0.75\<rparr>]\<rparr>)
     = Some \<lparr>box_x = 260, box_y = 160, box_width = 180, box_height = 200\<rparr>
   \<and> map_option bitmap (canvasRef (captureImage (roundTo 46)
     (initialApp\<lparr>videoRef := Some (0::nat), canvasRef := Some overlayCanvas,
      detections :=
        [\<lparr>det_box = \<lparr>box_x = 300, box_y = 200, box_width = 100, box_height = 120\<rparr>,
          det_score = 3154095999028927 / 4503599627370496\<rparr>,
         \<lparr>det_box = \<lparr>box_x = 10, box_y = 10, box_width = 50, box_height = 50\<rparr>,
          det_score = 0.75\<rparr>]\<rparr>)))
     = Some [DrawVideo 0 0 0 640 480,
             Stroke ''red'' 2 [MoveTo 300 190, LineTo 400 190],
             FillText ''red'' ''16px Arial'' ''Accuracy: 70.03%'' 300 185,
             Stroke ''red'' 2 [MoveTo 10 0, LineTo 60 0],
             FillText ''red'' ''16px Arial'' ''Accuracy: 75.00%'' 10 (- 5)]"
proof -
  let ?st = "initialApp\<lparr>videoRef := Some (0::nat), canvasRef := Some overlayCanvas,
      detections :=
        [\<lparr>det_box = \<lparr>box_x = 300, box_y = 200, box_width = 100, box_height = 120\<rparr>,
          det_score = 3154095999028927 / 4503599627370496\<rparr>,
         \<lparr>det_box = \<lparr>box_x = 10, box_y = 10, box_width = 50, box_height = 50\<rparr>,
          det_score = 0.75\<rparr>]\<rparr>"
  have pre: "videoRef ?st = Some 0" "canvasRef ?st = Some overlayCanvas"
    "length (detections ?st) > 1"
    by (simp_all add: initialApp_def)
  note t = crop_taken_from_first_detection [OF pre, of "roundTo 46"]
  have crop: "capturedCrop (roundTo 46) ?st =
      Some \<lparr>box_x = 260, box_y = 160, box_width = 180, box_height = 200\<rparr>"
    unfolding t [THEN conjunct1]
    by (simp add: initialApp_def roundTo_def nearestEven_def)
  have marks: "map_option bitmap (canvasRef (captureImage (roundTo 46) ?st)) =
      Some [DrawVideo 0 0 0 640 480,
             Stroke ''red'' 2 [MoveTo 300 190, LineTo 400 190],
             FillText ''red'' ''16px Arial'' ''Accuracy: 70.03%'' 300 185,
             Stroke ''red'' 2 [MoveTo 10 0, LineTo 60 0],
             FillText ''red'' ''16px Arial'' ''Accuracy: 75.00%'' 10 (- 5)]"
    unfolding t [THEN conjunct2, THEN conjunct2, THEN conjunct2]
    by (simp add: initialApp_def overlayCanvas_def setWidth_def setHeight_def
        createCanvas_def accuracyOps_def toFixed2_def Let_def digits.simps digit_chars
        roundTo_def nearestEven_def)
  from crop marks show ?thesis
    by (rule conjI)
qed

text \<open>
  Claim C4: for every video element, overlay canvas and non-empty stored sequence, a
  capture hands exactly one image to the encoder; it is 400 wide and 500 tall, it is
  first filled with white over its whole area, and the crop is then drawn onto the
  rectangle \<open>(0, 0, 400, 500)\<close>.
\<close>

theorem output_is_400_by_500_on_white:
  assumes "videoRef st = Some video" and "canvasRef st = Some canvas"
    and "detections st \<noteq> []"
  shows "\<exists>out w h src sx sy sw sh.
           captured rnd st = [out] \<and> cv_width out = 400 \<and> cv_height out = 500 \<and>
           bitmap out = [FillRect ''white'' 0 0 400 500,
                         DrawCanvas w h src sx sy sw sh 0 0 400 500]"
proof -
  from assms(3) obtain det rest where d: "detections st = det # rest"
    by (cases "detections st") auto
  show ?thesis unfolding captured_run [OF assms(1,2) d] by simp
qed

theorem output_is_400_by_500_on_white_witness:
  "\<exists>out w h src sx sy sw sh.
     captured (roundTo 45) (initialApp\<lparr>videoRef := Some (0::nat),
       canvasRef := Some overlayCanvas,
       detections := [\<lparr>det_box = \<lparr>box_x = 300, box_y = 200, box_width = 100,
                                   box_height = 120\<rparr>, det_score = 0.93\<rparr>]\<rparr>) = [out] \<and>
     cv_width out = 400 \<and> cv_height out = 500 \<and>
     bitmap out = [FillRect ''white'' 0 0 400 500,
                   DrawCanvas w h src sx sy sw sh 0 0 400 500]"
  using output_is_400_by_500_on_white [of "initialApp\<lparr>videoRef := Some (0::nat),
       canvasRef := Some overlayCanvas,
       detections := [\<lparr>det_box = \<lparr>box_x = 300, box_y = 200, box_width = 100,
                                   box_height = 120\<rparr>, det_score = 0.93\<rparr>]\<rparr>" 0 overlayCanvas
       "roundTo 45"]
  by (simp add: initialApp_def)

text \<open>
  Claim C5: a capture with an empty stored sequence is a no-op.  The state after the
  call is the state before it (no image queued for encoding, no download, nothing
  logged, canvas untouched); the function has no failing branch.
\<close>

theorem capture_without_detections_is_noop:
  assumes "detections st = []"
  shows "captureImage rnd st = st \<and> captured rnd st = []"
  using assms by (simp add: captured_def captureImage_skip)

theorem capture_without_detections_is_noop_witness:
  "captureImage (roundTo 45)
     (initialApp\<lparr>videoRef := Some (0::nat), canvasRef := Some overlayCanvas\<rparr>)
     = initialApp\<lparr>videoRef := Some (0::nat), canvasRef := Some overlayCanvas\<rparr>"
  using capture_without_detections_is_noop
    [of "initialApp\<lparr>videoRef := Some (0::nat), canvasRef := Some overlayCanvas\<rparr>"
        "roundTo 45"]
  by (simp add: initialApp_def)

text \<open>
  Claim C10: when the video reference or the canvas reference is absent, the capture
  returns the state as it was, also with a non-empty stored sequence: nothing is queued
  for encoding and nothing is downloaded.
\<close>

theorem capture_without_refs_returns_at_once:
  assumes "videoRef st = None \<or> canvasRef st = None"
  shows "captureImage rnd st = st \<and> captured rnd st = []"
  using assms by (auto simp: captured_def captureImage_skip)

theorem capture_without_refs_returns_at_once_witness:
  "captureImage (roundTo 45) (initialApp\<lparr>canvasRef := Some (overlayCanvas :: nat canvas),
      detections := [\<lparr>det_box = \<lparr>box_x = 300, box_y = 200, box_width = 100,
                                  box_height = 120\<rparr>, det_score = 0.93\<rparr>]\<rparr>)
   = initialApp\<lparr>canvasRef := Some overlayCanvas,
      detections := [\<lparr>det_box = \<lparr>box_x = 300, box_y = 200, box_width = 100,
                                  box_height = 120\<rparr>, det_score = 0.93\<rparr>]\<rparr>"
  using capture_without_refs_returns_at_once
    [of "initialApp\<lparr>canvasRef := Some (overlayCanvas :: nat canvas),
      detections := [\<lparr>det_box = \<lparr>box_x = 300, box_y = 200, box_width = 100,
                                  box_height = 120\<rparr>, det_score = 0.93\<rparr>]\<rparr>"
        "roundTo 45"]
  by (simp add: initialApp_def)

text \<open>
  Claim C9: the capture button is rendered exactly when some stored detection has a
  score strictly above 0.7; it is not rendered for the empty sequence nor when every
  score is at most 0.7.
\<close>

theorem capture_button_iff_some_score_above_070:
  "captureButtonShown st \<longleftrightarrow> (\<exists>det \<in> set (detections st). det_score det > 0.7)"
  by (simp add: captureButtonShown_def list_ex_iff)

theorem capture_button_iff_some_score_above_070_witness:
  "captureButtonShown (initialApp\<lparr>detections :=
      [\<lparr>det_box = \<lparr>box_x = 300, box_y = 200, box_width = 100, box_height = 120\<rparr>,
        det_score = 0.5\<rparr>,
       \<lparr>det_box = \<lparr>box_x = 10, box_y = 10, box_width = 50, box_height = 50\<rparr>,
        det_score = 0.71\<rparr>]\<rparr> :: nat app)
   \<and> \<not> captureButtonShown (initialApp\<lparr>detections :=
      [\<lparr>det_box = \<lparr>box_x = 300, box_y = 200, box_width = 100, box_height = 120\<rparr>,
        det_score = 0.7\<rparr>]\<rparr> :: nat app)
   \<and> \<not> captureButtonShown (initialApp :: nat app)"
  unfolding capture_button_iff_some_score_above_070
  by (simp add: initialApp_def)

text \<open>
  Claim C6: two captures in succession, with the same video picture and the same stored
  detections, give images with the same pixels.  The first capture paints on the overlay
  canvas and leaves its drawing state changed; the second capture starts from that
  canvas.  The overlay canvas has the size the component gives it, and the video picture
  hides what it is drawn over (\<open>hidesAll\<close>).  Whatever the raster \<open>R\<close>, the image of the
  second capture then has the pixels of the first, and the first capture changes neither
  the video reference nor the stored detections.
\<close>

theorem second_capture_has_same_pixels:
  assumes "videoRef st = Some video" and "canvasRef st = Some canvas"
    and "cv_width canvas = 640" and "cv_height canvas = 480"
    and "detections st \<noteq> []"
    and "hidesAll R video 640 480"
  shows "\<exists>out1 out2.
           captured rnd st = [out1] \<and> captured rnd (captureImage rnd st) = [out2] \<and>
           pixels R out1 = pixels R out2 \<and>
           videoRef (captureImage rnd st) = videoRef st \<and>
           detections (captureImage rnd st) = detections st"
proof -
  from assms(5) obtain det rest where d: "detections st = det # rest"
    by (cases "detections st") auto
  define ann :: "'a draw_op list" where "ann = concat (map (accuracyOps rnd) (det # rest))"
  define ctx where "ctx = fold (drawAccuracy rnd) (det # rest) (drawImage5 video 0 0 640 480 canvas)"
  have run1: "captureImage rnd st = st\<lparr>canvasRef := Some ctx, encoding := encoding st @ captured rnd st\<rparr>"
    unfolding captured_run [OF assms(1,2) d] ctx_def
    by (rule captureImage_run [OF assms(1,2) d])
  have refs2: "videoRef (captureImage rnd st) = Some video" "canvasRef (captureImage rnd st) = Some ctx"
    and d2: "detections (captureImage rnd st) = det # rest"
    unfolding run1 using assms(1) d by simp_all
  have size: "cv_width ctx = 640" "cv_height ctx = 480"
    unfolding ctx_def fold_drawAccuracy_size [THEN conjunct1]
      fold_drawAccuracy_size [THEN conjunct2]
    using assms(3,4) by (simp_all add: drawImage5_def paint_def)
  have bm: "bitmap ctx = bitmap canvas @ DrawVideo video 0 0 640 480 # ann"
    unfolding ctx_def ann_def fold_drawAccuracy_bitmap by (simp add: drawImage5_def paint_def)
  have cover:
    "pixelsOp R (DrawVideo video 0 0 640 480) (pixelsAfter R (bitmap ctx) (blank R 640 480)) =
     pixelsOp R (DrawVideo video 0 0 640 480) (pixelsAfter R (bitmap canvas) (blank R 640 480))"
    using assms(6) unfolding hidesAll_def by blast
  have src: "pixelsAfter R (bitmap ctx @ DrawVideo video 0 0 640 480 # ann) (blank R 640 480) =
             pixelsAfter R (bitmap canvas @ DrawVideo video 0 0 640 480 # ann) (blank R 640 480)"
    unfolding pixelsAfter_append pixelsAfter.simps cover ..
  show ?thesis
    unfolding captured_run [OF refs2 d2] captured_run [OF assms(1,2) d] size assms(3,4)
    using src assms(1) d d2
    by (simp add: pixels_def ann_def refs2(1))
qed

theorem second_capture_has_same_pixels_witness:
  "\<exists>out1 out2.
     captured (roundTo 45) (initialApp\<lparr>videoRef := Some (0::nat),
       canvasRef := Some overlayCanvas,
       detections := [\<lparr>det_box = \<lparr>box_x = 300, box_y = 200, box_width = 100,
                                   box_height = 120\<rparr>, det_score = 0.93\<rparr>]\<rparr>) = [out1] \<and>
     captured (roundTo 45) (captureImage (roundTo 45) (initialApp\<lparr>videoRef := Some (0::nat),
       canvasRef := Some overlayCanvas,
       detections := [\<lparr>det_box = \<lparr>box_x = 300, box_y = 200, box_width = 100,
                                   box_height = 120\<rparr>, det_score = 0.93\<rparr>]\<rparr>)) = [out2] \<and>
     pixels layers out1 = pixels layers out2"
proof -
  let ?st = "initialApp\<lparr>videoRef := Some (0::nat), canvasRef := Some overlayCanvas,
       detections := [\<lparr>det_box = \<lparr>box_x = 300, box_y = 200, box_width = 100,
                                   box_height = 120\<rparr>, det_score = 0.93\<rparr>]\<rparr>"
  have "videoRef ?st = Some 0" "canvasRef ?st = Some overlayCanvas"
    "cv_width (overlayCanvas :: nat canvas) = 640" "cv_height (overlayCanvas :: nat canvas) = 480"
    "detections ?st \<noteq> []"
    by (simp_all add: initialApp_def overlayCanvas_def setWidth_def setHeight_def
        createCanvas_def videoWidth_def videoHeight_def)
  from second_capture_has_same_pixels [where rnd = "roundTo 45", OF this hidesAll_layers]
  show ?thesis by blast
qed

text \<open>
  Claim C7: the call itself never starts a download; when the encoder delivers no data
  the callback changes nothing (the finished job leaves the queue, and that is all);
  when it delivers data the file \<open>passport_photo.png\<close> is offered; and after a capture
  that found both references and a detection, the download is missing exactly when the
  encoder delivered no data.
\<close>

theorem no_download_without_encoded_data:
  "downloads (captureImage rnd st) = downloads st
   \<and> toBlobDone None st = st\<lparr>encoding := tl (encoding st)\<rparr>
   \<and> (encoding st \<noteq> [] \<longrightarrow>
        downloads (toBlobDone (Some blob) st) =
          downloads st @ [(''passport_photo.png'', ObjectURL blob)])
   \<and> (videoRef st \<noteq> None \<and> canvasRef st \<noteq> None \<and> detections st \<noteq> [] \<longrightarrow>
        (downloads (toBlobDone result (captureImage rnd st)) = downloads st
           \<longleftrightarrow> result = None))"
proof (intro conjI impI)
  show a: "downloads (captureImage rnd st) = downloads st"
    by (simp add: captureImage_def Let_def split: option.splits)
  show "toBlobDone None st = st\<lparr>encoding := tl (encoding st)\<rparr>"
    by (cases "encoding st") (simp_all add: toBlobDone_def onBlob_def)
  show "downloads (toBlobDone (Some blob) st) =
          downloads st @ [(''passport_photo.png'', ObjectURL blob)]"
    if "encoding st \<noteq> []"
    using that by (cases "encoding st") (simp_all add: toBlobDone_def onBlob_def Let_def)
  show "downloads (toBlobDone result (captureImage rnd st)) = downloads st \<longleftrightarrow> result = None"
    if h: "videoRef st \<noteq> None \<and> canvasRef st \<noteq> None \<and> detections st \<noteq> []"
  proof -
    from h obtain video canvas det rest where
      r: "videoRef st = Some video" "canvasRef st = Some canvas" "detections st = det # rest"
      by (cases "detections st") auto
    have "encoding (captureImage rnd st) \<noteq> []"
      unfolding captureImage_run [OF r] by simp
    then obtain job more where e: "encoding (captureImage rnd st) = job # more"
      by (cases "encoding (captureImage rnd st)") auto
    show ?thesis
      using a by (cases result) (simp_all add: toBlobDone_def onBlob_def Let_def e)
  qed
qed

theorem no_download_without_encoded_data_witness:
  "downloads (toBlobDone None (captureImage (roundTo 45)
      (initialApp\<lparr>videoRef := Some (0::nat), canvasRef := Some overlayCanvas,
        detections := [\<lparr>det_box = \<lparr>box_x = 300, box_y = 200, box_width = 100,
                                    box_height = 120\<rparr>, det_score = 0.93\<rparr>]\<rparr>))) = []
   \<and> downloads (toBlobDone (Some [137, 80, 78, 71]) (captureImage (roundTo 45)
      (initialApp\<lparr>videoRef := Some (0::nat), canvasRef := Some overlayCanvas,
        detections := [\<lparr>det_box = \<lparr>box_x = 300, box_y = 200, box_width = 100,
                                    box_height = 120\<rparr>, det_score = 0.93\<rparr>]\<rparr>)))
       = [(''passport_photo.png'', ObjectURL [137, 80, 78, 71])]"
proof -
  let ?st = "initialApp\<lparr>videoRef := Some (0::nat), canvasRef := Some overlayCanvas,
        detections := [\<lparr>det_box = \<lparr>box_x = 300, box_y = 200, box_width = 100,
                                    box_height = 120\<rparr>, det_score = 0.93\<rparr>]\<rparr>"
  have pre: "videoRef ?st \<noteq> None \<and> canvasRef ?st \<noteq> None \<and> detections ?st \<noteq> []"
    by (simp add: initialApp_def)
  have none: "downloads ?st = []"
    by (simp add: initialApp_def)
  from no_download_without_encoded_data [of "roundTo 45" ?st "[137, 80, 78, 71]" None] pre none
  have fail: "downloads (toBlobDone None (captureImage (roundTo 45) ?st)) = []"
    by simp
  have queued: "encoding (captureImage (roundTo 45) ?st) \<noteq> []"
    by (simp add: captureImage_def Let_def initialApp_def)
  from no_download_without_encoded_data
    [of "roundTo 45" "captureImage (roundTo 45) ?st" "[137, 80, 78, 71]" None] queued
  have ok: "downloads (toBlobDone (Some [137, 80, 78, 71]) (captureImage (roundTo 45) ?st)) =
          downloads (captureImage (roundTo 45) ?st) @
            [(''passport_photo.png'', ObjectURL [137, 80, 78, 71])]"
    by blast
  have "downloads (captureImage (roundTo 45) ?st) = []"
    using no_download_without_encoded_data [of "roundTo 45" ?st "[137, 80, 78, 71]" None] none by simp
  with fail ok show ?thesis by simp
qed

text \<open>
  Claim C8: a run of the interval callback in which the detector finds no face leaves
  the stored detections as they were; a run without video or canvas changes nothing at
  all; the stored detections are replaced, by the rescaled result, in the runs whose
  detection result is non-empty.
\<close>

theorem tick_keeps_detections_when_no_face:
  "(videoRef st = Some video \<and> detectFaces api sel video = [] \<longrightarrow>
      detections (tick rnd api sel st) = detections st)
   \<and> (videoRef st = None \<or> canvasRef st = None \<longrightarrow> tick rnd api sel st = st)
   \<and> (videoRef st = Some video \<and> canvasRef st = Some canvas \<and>
      detectFaces api sel video \<noteq> [] \<longrightarrow>
      detections (tick rnd api sel st) =
        resizeResults api (detectFaces api sel video) (videoWidth, videoHeight))"
  by (auto simp: tick_def Let_def split: option.splits)

theorem tick_keeps_detections_when_no_face_witness:
  "detections (tick (roundTo 45)
      \<lparr>detectAllFaces = (\<lambda>v opts. if v = (0::nat) then [] else
          [\<lparr>det_box = \<lparr>box_x = 10, box_y = 10, box_width = 50, box_height = 50\<rparr>,
            det_score = 0.99\<rparr>]),
       withFaceLandmarks = (\<lambda>ds. ds), resizeResults = (\<lambda>ds sz. ds),
       matchDimensions = (\<lambda>c sz. c)\<rparr> ''ssd''
      (initialApp\<lparr>videoRef := Some (0::nat), canvasRef := Some overlayCanvas,
        detections := [\<lparr>det_box = \<lparr>box_x = 300, box_y = 200, box_width = 100,
                                    box_height = 120\<rparr>, det_score = 0.93\<rparr>]\<rparr>))
   = [\<lparr>det_box = \<lparr>box_x = 300, box_y = 200, box_width = 100, box_height = 120\<rparr>,
       det_score = 0.93\<rparr>]
   \<and> detections (tick (roundTo 45)
      \<lparr>detectAllFaces = (\<lambda>v opts. if v = (0::nat) then [] else
          [\<lparr>det_box = \<lparr>box_x = 10, box_y = 10, box_width = 50, box_height = 50\<rparr>,
            det_score = 0.99\<rparr>]),
       withFaceLandmarks = (\<lambda>ds. ds), resizeResults = (\<lambda>ds sz. ds),
       matchDimensions = (\<lambda>c sz. c)\<rparr> ''ssd''
      (initialApp\<lparr>videoRef := Some 1, canvasRef := Some overlayCanvas,
        detections := [\<lparr>det_box = \<lparr>box_x = 300, box_y = 200, box_width = 100,
                                    box_height = 120\<rparr>, det_score = 0.93\<rparr>]\<rparr>))
   = [\<lparr>det_box = \<lparr>box_x = 10, box_y = 10, box_width = 50, box_height = 50\<rparr>,
       det_score = 0.99\<rparr>]"
proof -
  let ?api = "\<lparr>detectAllFaces = (\<lambda>v opts. if v = (0::nat) then [] else
          [\<lparr>det_box = \<lparr>box_x = 10, box_y = 10, box_width = 50, box_height = 50\<rparr>,
            det_score = 0.99\<rparr>]),
       withFaceLandmarks = (\<lambda>ds. ds), resizeResults = (\<lambda>ds sz. ds),
       matchDimensions = (\<lambda>c sz. c)\<rparr>"
  let ?st0 = "initialApp\<lparr>videoRef := Some (0::nat), canvasRef := Some overlayCanvas,
        detections := [\<lparr>det_box = \<lparr>box_x = 300, box_y = 200, box_width = 100,
                                    box_height = 120\<rparr>, det_score = 0.93\<rparr>]\<rparr>"
  let ?st1 = "initialApp\<lparr>videoRef := Some (1::nat), canvasRef := Some overlayCanvas,
        detections := [\<lparr>det_box = \<lparr>box_x = 300, box_y = 200, box_width = 100,
                                    box_height = 120\<rparr>, det_score = 0.93\<rparr>]\<rparr>"
  have none: "videoRef ?st0 = Some 0 \<and> detectFaces ?api ''ssd'' 0 = []"
    by (simp add: detectFaces_def initialApp_def)
  have a: "detections (tick (roundTo 45) ?api ''ssd'' ?st0) = detections ?st0"
    by (rule tick_keeps_detections_when_no_face
          [of ?st0 0 ?api "''ssd''" "roundTo 45" overlayCanvas, THEN conjunct1, THEN mp, OF none])
  have some: "videoRef ?st1 = Some 1 \<and> canvasRef ?st1 = Some overlayCanvas \<and>
        detectFaces ?api ''ssd'' 1 \<noteq> []"
    by (simp add: detectFaces_def initialApp_def)
  have b: "detections (tick (roundTo 45) ?api ''ssd'' ?st1) =
             resizeResults ?api (detectFaces ?api ''ssd'' 1) (videoWidth, videoHeight)"
    by (rule tick_keeps_detections_when_no_face
          [of ?st1 1 ?api "''ssd''" "roundTo 45" overlayCanvas, THEN conjunct2, THEN conjunct2,
           THEN mp, OF some])
  show ?thesis
    unfolding a b by (simp add: detectFaces_def initialApp_def)
qed

end
